theory Spec2Isabelle
  imports Main
begin

section \<open>Values, dictionaries and errors\<close>

text \<open>
  Notebook metadata is a loosely typed tree, as read from JSON or YAML: \<open>None\<close>, booleans,
  numbers, strings, lists and dictionaries with string keys. A dictionary is an association
  list with distinct keys, in insertion order. A number is kept as an integer: every
  operation of \<open>formats.py\<close> on a number (truth value, \<open>isinstance\<close>, iteration,
  comparison with a string) treats a float as it treats an integer. Values are trees: two
  places of a mapping never share one mutable object.
\<close>

datatype json =
    JNone
  | JBool bool
  | JInt int
  | JStr string
  | JList "json list"
  | JDict "(string \<times> json) list"

type_synonym dict = "(string \<times> json) list"

text \<open>Python's truth value of an object (\<open>if x\<close>, \<open>not x\<close>, \<open>x or y\<close>).\<close>

fun truthy :: "json \<Rightarrow> bool" where
  "truthy JNone = False"
| "truthy (JBool b) = b"
| "truthy (JInt i) = (i \<noteq> 0)"
| "truthy (JStr s) = (s \<noteq> [])"
| "truthy (JList xs) = (xs \<noteq> [])"
| "truthy (JDict d) = (d \<noteq> [])"

text \<open>
  The exceptions of \<open>formats.py\<close>. Each constructor carries the arguments of the message
  the source formats. \<open>TypeError_operand\<close> and \<open>AttributeError_operand\<close> are the errors
  the interpreter raises when an operation meets a value of the wrong type.
\<close>

datatype format_error =
    NotADictionary
  | UnknownFormatOption string
  | ShouldBeBool string json
  | ShouldBeString string json
  | MissingFormatExtension
  | NotANotebookExtension json

datatype error =
    TypeError_not_associated json string "string list"
  | TypeError_no_format string
  | TypeError_operand
  | AttributeError_operand
  | KeyError_key string
  | ValueError_unsafe_merge string json string string
  | ValueError_extension string
  | ValueError_no_kernel
  | JupytextFormatError format_error

subsection \<open>Dictionary operations\<close>

text \<open>\<open>d.get(k)\<close> is \<open>map_of d k\<close>; \<open>k in d\<close> is \<open>has_key d k\<close>.\<close>

definition has_key :: "dict \<Rightarrow> string \<Rightarrow> bool" where
  "has_key d k = (map_of d k \<noteq> None)"

text \<open>\<open>d[k] = v\<close>: an existing key keeps its place, a new key goes to the end.\<close>

fun dict_set :: "dict \<Rightarrow> string \<Rightarrow> json \<Rightarrow> dict" where
  "dict_set [] k v = [(k, v)]"
| "dict_set ((k', v') # d) k v = (if k' = k then (k, v) # d else (k', v') # dict_set d k v)"

text \<open>The dictionary left by \<open>d.pop(k)\<close>.\<close>

definition dict_del :: "dict \<Rightarrow> string \<Rightarrow> dict" where
  "dict_del d k = filter (\<lambda>p. fst p \<noteq> k) d"

text \<open>\<open>x.get(k, default)\<close> on an arbitrary value: only a dictionary has \<open>get\<close>.\<close>

fun py_get :: "json \<Rightarrow> string \<Rightarrow> json \<Rightarrow> error + json" where
  "py_get (JDict d) k dflt = Inr (case map_of d k of None \<Rightarrow> dflt | Some v \<Rightarrow> v)"
| "py_get _ k dflt = Inl AttributeError_operand"

subsection \<open>Strings\<close>

text \<open>\<open>s.startswith(t)\<close> and \<open>s.endswith(t)\<close>.\<close>

definition startswith :: "string \<Rightarrow> string \<Rightarrow> bool" where
  "startswith s t = (take (length t) s = t)"

definition endswith :: "string \<Rightarrow> string \<Rightarrow> bool" where
  "endswith s t = (length t \<le> length s \<and> drop (length s - length t) s = t)"

text \<open>\<open>s.split(c)\<close> for a separator of one character: never an empty list.\<close>

fun split_at :: "char \<Rightarrow> string \<Rightarrow> string list" where
  "split_at c [] = [[]]"
| "split_at c (x # xs) =
     (if x = c then [] # split_at c xs
      else (case split_at c xs of [] \<Rightarrow> [[x]] | w # ws \<Rightarrow> (x # w) # ws))"

text \<open>\<open>sep.join(ws)\<close>.\<close>

fun join :: "string \<Rightarrow> string list \<Rightarrow> string" where
  "join sep [] = []"
| "join sep [w] = w"
| "join sep (w # ws) = w @ sep @ join sep ws"

section \<open>The registry of formats\<close>

datatype cell_reader_class =
    MarkdownCellReader | RMarkdownCellReader | LightScriptCellReader | RScriptCellReader
  | DoublePercentScriptCellReader | HydrogenCellReader | SphinxGalleryScriptCellReader

datatype cell_exporter_class =
    MarkdownCellExporter | RMarkdownCellExporter | LightScriptCellExporter | RScriptCellExporter
  | DoublePercentCellExporter | HydrogenCellExporter | SphinxGalleryCellExporter

record NotebookFormatDescription =
  format_name :: string
  extension :: string
  header_prefix :: string
  cell_reader :: cell_reader_class
  cell_exporter :: cell_exporter_class
  current_version_number :: string
  min_readable_version_number :: "string option"

text \<open>
  \<open>_SCRIPT_EXTENSIONS\<close> is imported from \<open>jupytext.languages\<close>, which is not among the
  sources. It is a dictionary from a script extension to its language and comment prefix;
  \<open>formats.py\<close> reads the keys and the \<open>comment\<close> field only. The table is a parameter
  \<open>se\<close> of everything that depends on it: an association list from extension to comment.
\<close>

type_synonym script_extensions = "(string \<times> string) list"

definition markdown_format :: NotebookFormatDescription where
  "markdown_format = \<lparr>format_name = ''markdown'', extension = ''.md'', header_prefix = '''',
     cell_reader = MarkdownCellReader, cell_exporter = MarkdownCellExporter,
     current_version_number = ''1.0'', min_readable_version_number = None\<rparr>"

definition rmarkdown_format :: NotebookFormatDescription where
  "rmarkdown_format = \<lparr>format_name = ''rmarkdown'', extension = ''.Rmd'', header_prefix = '''',
     cell_reader = RMarkdownCellReader, cell_exporter = RMarkdownCellExporter,
     current_version_number = ''1.0'', min_readable_version_number = None\<rparr>"

definition spin_format :: "string \<Rightarrow> NotebookFormatDescription" where
  "spin_format ext = \<lparr>format_name = ''spin'', extension = ext, header_prefix = ''#'' @ [CHR 0x27],
     cell_reader = RScriptCellReader, cell_exporter = RScriptCellExporter,
     current_version_number = ''1.0'', min_readable_version_number = None\<rparr>"

definition light_format :: "string \<times> string \<Rightarrow> NotebookFormatDescription" where
  "light_format e = \<lparr>format_name = ''light'', extension = fst e, header_prefix = snd e,
     cell_reader = LightScriptCellReader, cell_exporter = LightScriptCellExporter,
     current_version_number = ''1.3'', min_readable_version_number = Some ''1.1''\<rparr>"

definition percent_format :: "string \<times> string \<Rightarrow> NotebookFormatDescription" where
  "percent_format e = \<lparr>format_name = ''percent'', extension = fst e, header_prefix = snd e,
     cell_reader = DoublePercentScriptCellReader, cell_exporter = DoublePercentCellExporter,
     current_version_number = ''1.2'', min_readable_version_number = Some ''1.1''\<rparr>"

definition hydrogen_format :: "string \<times> string \<Rightarrow> NotebookFormatDescription" where
  "hydrogen_format e = \<lparr>format_name = ''hydrogen'', extension = fst e, header_prefix = snd e,
     cell_reader = HydrogenCellReader, cell_exporter = HydrogenCellExporter,
     current_version_number = ''1.2'', min_readable_version_number = Some ''1.1''\<rparr>"

definition sphinx_format :: NotebookFormatDescription where
  "sphinx_format = \<lparr>format_name = ''sphinx'', extension = ''.py'', header_prefix = ''#'',
     cell_reader = SphinxGalleryScriptCellReader, cell_exporter = SphinxGalleryCellExporter,
     current_version_number = ''1.1'', min_readable_version_number = None\<rparr>"

definition JUPYTEXT_FORMATS :: "script_extensions \<Rightarrow> NotebookFormatDescription list" where
  "JUPYTEXT_FORMATS se =
     [markdown_format, rmarkdown_format] @
     map spin_format [''.r'', ''.R''] @
     map light_format se @
     map percent_format se @
     map hydrogen_format se @
     [sphinx_format]"

text \<open>\<open>list(dict.fromkeys(xs))\<close>: the first occurrence of every element, in order.\<close>

fun fromkeys :: "string list \<Rightarrow> string list" where
  "fromkeys [] = []"
| "fromkeys (x # xs) = x # fromkeys (filter (\<lambda>y. y \<noteq> x) xs)"

definition NOTEBOOK_EXTENSIONS :: "script_extensions \<Rightarrow> string list" where
  "NOTEBOOK_EXTENSIONS se = fromkeys (''.ipynb'' # map extension (JUPYTEXT_FORMATS se))"

definition EXTENSION_PREFIXES :: "string list" where
  "EXTENSION_PREFIXES = [''.lgt'', ''.spx'', ''.pct'', ''.hyd'', ''.nb'']"

subsection \<open>\<open>get_format_implementation\<close>\<close>

text \<open>
  The loop over the registry either returns a descriptor from inside the loop or runs to
  its end with the format names collected for the extension.
\<close>

datatype lookup = Returned NotebookFormatDescription | Collected "string list"

fun formats_for_extension ::
  "NotebookFormatDescription list \<Rightarrow> string \<Rightarrow> json \<Rightarrow> string list \<Rightarrow> lookup" where
  "formats_for_extension [] ext name acc = Collected acc"
| "formats_for_extension (fmt # fmts) ext name acc =
     (if extension fmt = ext then
        (if JStr (format_name fmt) = name \<or> \<not> truthy name then Returned fmt
         else formats_for_extension fmts ext name (acc @ [format_name fmt]))
      else formats_for_extension fmts ext name acc)"

text \<open>The extension without any pre-extension: \<open>'.' + ext.split('.')[-1]\<close>.\<close>

definition short_extension :: "string \<Rightarrow> string" where
  "short_extension ext = ''.'' @ last (split_at CHR ''.'' ext)"

definition get_format_implementation ::
  "script_extensions \<Rightarrow> string \<Rightarrow> json \<Rightarrow> error + NotebookFormatDescription option" where
  "get_format_implementation se ext0 name =
     (let ext = short_extension ext0 in
      if endswith ext ''.ipynb'' then Inr None
      else (case formats_for_extension (JUPYTEXT_FORMATS se) ext name [] of
              Returned fmt \<Rightarrow> Inr (Some fmt)
            | Collected names \<Rightarrow>
                if names \<noteq> [] then Inl (TypeError_not_associated name ext names)
                else Inl (TypeError_no_format ext)))"

text \<open>
  Modelled from the spec: the table \<open>_SCRIPT_EXTENSIONS\<close> of \<open>jupytext.languages\<close> is
  missing from the sources. The spec and the registry fix one of its entries: the generic
  script extension \<open>.py\<close>, with the comment prefix \<open>#\<close> that the sphinx descriptor
  registers for it. \<open>script_extensions_py\<close> is the table with this entry alone; it stands
  for \<open>se\<close> where a closed instance is evaluated.
\<close>

definition script_extensions_py :: script_extensions where
  "script_extensions_py = [(''.py'', ''#'')]"

section \<open>Paths\<close>

text \<open>\<open>s.rfind(c)\<close>: the highest index of \<open>c\<close> in \<open>s\<close>, or \<open>-1\<close>.\<close>

definition rfind :: "char \<Rightarrow> string \<Rightarrow> int" where
  "rfind c s =
     (if c \<in> set s then int (length s) - 1 - int (length (takeWhile (\<lambda>x. x \<noteq> c) (rev s)))
      else - 1)"

text \<open>
  \<open>os.path.splitext\<close> and \<open>os.path.basename\<close> of the standard library, for POSIX paths.
  The extension starts at the last dot of the last path component; leading dots of that
  component do not start an extension.
\<close>

definition splitext :: "string \<Rightarrow> string \<times> string" where
  "splitext p =
     (let sepIndex = rfind CHR ''/'' p; dotIndex = rfind CHR ''.'' p in
      if dotIndex > sepIndex \<and>
         list_ex (\<lambda>c. c \<noteq> CHR ''.'')
           (take (nat (dotIndex - (sepIndex + 1))) (drop (nat (sepIndex + 1)) p))
      then (take (nat dotIndex) p, drop (nat dotIndex) p)
      else (p, []))"

definition basename :: "string \<Rightarrow> string" where
  "basename p = drop (nat (rfind CHR ''/'' p + 1)) p"

section \<open>Compact format specifications\<close>

type_synonym format_pair = "string \<times> string option"

text \<open>\<open>s.split(':', 1)\<close> when \<open>s\<close> contains a colon: the parts around the first colon.\<close>

definition split_first :: "char \<Rightarrow> string \<Rightarrow> string \<times> string" where
  "split_first c s = (takeWhile (\<lambda>x. x \<noteq> c) s, drop 1 (dropWhile (\<lambda>x. x \<noteq> c) s))"

definition legitimate_extensions :: "script_extensions \<Rightarrow> string list" where
  "legitimate_extensions se = NOTEBOOK_EXTENSIONS se @ [''.auto'']"

definition parse_one_format :: "script_extensions \<Rightarrow> string \<Rightarrow> error + format_pair" where
  "parse_one_format se ext_and_format_name =
     (let (ext0, name) =
            (if CHR '':'' \<in> set ext_and_format_name
             then (fst (split_first CHR '':'' ext_and_format_name),
                   Some (snd (split_first CHR '':'' ext_and_format_name)))
             else (ext_and_format_name, None));
          ext = (if \<not> startswith ext0 ''.'' then ''.'' @ ext0 else ext0)
      in if ext \<in> set (legitimate_extensions se) then Inr (ext, name)
         else if rfind CHR ''.'' ext > 0 \<and>
                 snd (splitext ext) \<in> set (legitimate_extensions se) \<and>
                 fst (splitext ext) \<in> set EXTENSION_PREFIXES
              then Inr (ext, name)
         else Inl (ValueError_extension ext))"

text \<open>The list comprehension of \<open>parse_formats\<close>: the first error ends it.\<close>

fun parse_each :: "script_extensions \<Rightarrow> string list \<Rightarrow> error + format_pair list" where
  "parse_each se [] = Inr []"
| "parse_each se (w # ws) =
     (case parse_one_format se w of
        Inl e \<Rightarrow> Inl e
      | Inr p \<Rightarrow> (case parse_each se ws of Inl e \<Rightarrow> Inl e | Inr ps \<Rightarrow> Inr (p # ps)))"

text \<open>
  \<open>parse_formats\<close> is handed whatever the metadata holds under \<open>formats\<close>: a value that
  is true and is not a string has no \<open>split\<close>.
\<close>

definition parse_formats :: "script_extensions \<Rightarrow> json \<Rightarrow> error + format_pair list" where
  "parse_formats se formats =
     (if \<not> truthy formats then Inr []
      else (case formats of
              JStr s \<Rightarrow> parse_each se (split_at CHR '','' s)
            | _ \<Rightarrow> Inl AttributeError_operand))"

text \<open>The loop of \<open>update_formats\<close>, with its flag \<open>found_ext\<close> and the list it builds.\<close>

fun update_loop ::
  "format_pair list \<Rightarrow> string \<Rightarrow> string option \<Rightarrow> bool \<Rightarrow> format_pair list \<Rightarrow> format_pair list" where
  "update_loop [] ext name found_ext updated = updated"
| "update_loop ((org_ext, org_name) # formats) ext name found_ext updated =
     (if org_ext \<noteq> ext then update_loop formats ext name found_ext (updated @ [(org_ext, org_name)])
      else if \<not> found_ext then update_loop formats ext name True (updated @ [(ext, name)])
      else update_loop formats ext name found_ext updated)"

definition update_formats :: "format_pair list \<Rightarrow> string \<Rightarrow> string option \<Rightarrow> format_pair list" where
  "update_formats formats ext name = update_loop formats ext name False []"

definition one_format_as_string :: "string \<Rightarrow> string option \<Rightarrow> string" where
  "one_format_as_string ext0 name =
     (let ext = (if startswith ext0 ''.'' then drop 1 ext0 else ext0) in
      case name of
        None \<Rightarrow> ext
      | Some n \<Rightarrow> if n \<noteq> [] \<and> n \<notin> set [''markdown'', ''rmarkdown''] then ext @ '':'' @ n else ext)"

definition formats_as_string :: "format_pair list \<Rightarrow> string" where
  "formats_as_string formats = join '','' (map (\<lambda>(ext, name). one_format_as_string ext name) formats)"

section \<open>Resolving the format of an extension\<close>

text \<open>\<open>metadata.get('jupytext', {})\<close> on the notebook's metadata dictionary.\<close>

definition jupytext_block :: "dict \<Rightarrow> json" where
  "jupytext_block metadata = (case map_of metadata ''jupytext'' of None \<Rightarrow> JDict [] | Some v \<Rightarrow> v)"

definition auto_ext_from_metadata :: "dict \<Rightarrow> error + json" where
  "auto_ext_from_metadata metadata =
     (case py_get (case map_of metadata ''language_info'' of None \<Rightarrow> JDict [] | Some v \<Rightarrow> v)
             ''file_extension'' JNone of
        Inl e \<Rightarrow> Inl e
      | Inr auto_ext \<Rightarrow> if auto_ext = JStr ''.r'' then Inr (JStr ''.R'') else Inr auto_ext)"

text \<open>
  The test of one entry of the formats list:
  \<open>fmt_ext.endswith(ext) or (fmt_ext.endswith('.auto') and auto_ext and ext.endswith(auto_ext))\<close>.
  \<open>str.endswith\<close> raises on an argument that is not a string.
\<close>

definition entry_matches :: "string \<Rightarrow> string \<Rightarrow> json \<Rightarrow> error + bool" where
  "entry_matches fmt_ext ext auto_ext =
     (if endswith fmt_ext ext then Inr True
      else if endswith fmt_ext ''.auto'' \<and> truthy auto_ext
           then (case auto_ext of JStr a \<Rightarrow> Inr (endswith ext a) | _ \<Rightarrow> Inl TypeError_operand)
      else Inr False)"

text \<open>
  The loop over the parsed formats: \<open>Some v\<close> when the loop returns \<open>v\<close>, \<open>None\<close> when
  it runs to its end.
\<close>

definition name_value :: "string option \<Rightarrow> json" where
  "name_value name = (case name of None \<Rightarrow> JNone | Some n \<Rightarrow> JStr n)"

fun formats_scan :: "format_pair list \<Rightarrow> string \<Rightarrow> json \<Rightarrow> bool \<Rightarrow> error + json option" where
  "formats_scan [] ext auto_ext explicit_default = Inr None"
| "formats_scan ((fmt_ext, ext_format_name) # formats) ext auto_ext explicit_default =
     (case entry_matches fmt_ext ext auto_ext of
        Inl e \<Rightarrow> Inl e
      | Inr m \<Rightarrow>
          if m \<and> (\<not> explicit_default \<or> truthy (name_value ext_format_name))
          then Inr (Some (name_value ext_format_name))
          else formats_scan formats ext auto_ext explicit_default)"

text \<open>\<open>get_format_implementation(ext).format_name\<close>: \<open>None\<close> has no attribute.\<close>

definition default_format_name :: "script_extensions \<Rightarrow> string \<Rightarrow> error + json" where
  "default_format_name se ext =
     (case get_format_implementation se ext JNone of
        Inl e \<Rightarrow> Inl e
      | Inr None \<Rightarrow> Inl AttributeError_operand
      | Inr (Some fmt) \<Rightarrow> Inr (JStr (format_name fmt)))"

text \<open>
  The first test of \<open>format_name_for_ext\<close>, on the text representation block:
  \<open>Some n\<close> when the function returns the recorded format name \<open>n\<close> there.
\<close>

definition text_repr_format_name :: "json \<Rightarrow> string \<Rightarrow> error + json option" where
  "text_repr_format_name text_repr ext =
     (if truthy text_repr
      then (case py_get text_repr ''extension'' JNone of
              Inl e \<Rightarrow> Inl e
            | Inr x \<Rightarrow>
                if x = JStr ext
                then (case py_get text_repr ''format_name'' JNone of
                        Inl e \<Rightarrow> Inl e
                      | Inr n \<Rightarrow> Inr (if truthy n then Some n else None))
                else Inr None)
      else Inr None)"

text \<open>The rest of \<open>format_name_for_ext\<close>: the format from \<open>jupytext.formats\<close>.\<close>

definition format_name_from_formats ::
  "script_extensions \<Rightarrow> dict \<Rightarrow> string \<Rightarrow> json \<Rightarrow> bool \<Rightarrow> error + json" where
  "format_name_from_formats se metadata ext cm_default_formats explicit_default =
     (case auto_ext_from_metadata metadata of
        Inl e \<Rightarrow> Inl e
      | Inr auto_ext \<Rightarrow>
     (case py_get (jupytext_block metadata) ''formats'' (JStr '''') of
        Inl e \<Rightarrow> Inl e
      | Inr f \<Rightarrow>
     (case parse_formats se (if truthy f then f else cm_default_formats) of
        Inl e \<Rightarrow> Inl e
      | Inr formats \<Rightarrow>
     (case formats_scan formats ext auto_ext explicit_default of
        Inl e \<Rightarrow> Inl e
      | Inr (Some n) \<Rightarrow> Inr n
      | Inr None \<Rightarrow>
          if \<not> explicit_default \<or> ext \<in> set [''.Rmd'', ''.md''] then Inr JNone
          else default_format_name se ext))))"

definition format_name_for_ext ::
  "script_extensions \<Rightarrow> dict \<Rightarrow> string \<Rightarrow> json \<Rightarrow> bool \<Rightarrow> error + json" where
  "format_name_for_ext se metadata ext cm_default_formats explicit_default =
     (case py_get (jupytext_block metadata) ''text_representation'' JNone of
        Inl e \<Rightarrow> Inl e
      | Inr text_repr \<Rightarrow>
     (case text_repr_format_name text_repr ext of
        Inl e \<Rightarrow> Inl e
      | Inr (Some n) \<Rightarrow> Inr n
      | Inr None \<Rightarrow> format_name_from_formats se metadata ext cm_default_formats explicit_default))"

text \<open>
  \<open>update_jupytext_formats_metadata\<close>, on the notebook's metadata. The formats string is
  stored in the \<open>jupytext\<close> block, which \<open>setdefault\<close> creates when it is missing.
\<close>

definition update_jupytext_formats_metadata ::
  "script_extensions \<Rightarrow> dict \<Rightarrow> string \<Rightarrow> string option \<Rightarrow> error + dict" where
  "update_jupytext_formats_metadata se metadata ext name =
     (case py_get (jupytext_block metadata) ''formats'' (JStr '''') of
        Inl e \<Rightarrow> Inl e
      | Inr f \<Rightarrow>
     (case parse_formats se f of
        Inl e \<Rightarrow> Inl e
      | Inr formats \<Rightarrow>
          let formats' = update_formats formats ext name in
          if formats' \<noteq> []
          then (case jupytext_block metadata of
                  JDict block \<Rightarrow>
                    Inr (dict_set metadata ''jupytext''
                           (JDict (dict_set block ''formats'' (JStr (formats_as_string formats')))))
                | _ \<Rightarrow> Inl TypeError_operand)
          else Inr metadata))"

section \<open>The version guard\<close>

text \<open>
  \<open>a <= b\<close> on two Python strings: the order of the code points of the first position
  where they differ, a proper prefix being smaller.
\<close>

fun str_le :: "string \<Rightarrow> string \<Rightarrow> bool" where
  "str_le [] t = True"
| "str_le (x # xs) [] = False"
| "str_le (x # xs) (y # ys) = (if x = y then str_le xs ys else (of_char x :: nat) < of_char y)"

text \<open>
  \<open>lo <= version <= hi\<close> with strings \<open>lo\<close> and \<open>hi\<close> and \<open>version\<close> as read from the
  metadata. Python 3 is modelled: ordering a string against \<open>None\<close> or any other value
  that is not a string raises \<open>TypeError\<close>.
\<close>

definition version_between :: "string \<Rightarrow> json \<Rightarrow> string \<Rightarrow> error + bool" where
  "version_between lo version hi =
     (case version of
        JStr v \<Rightarrow> Inr (str_le lo v \<and> str_le v hi)
      | _ \<Rightarrow> Inl TypeError_operand)"

text \<open>
  \<open>check_file_version\<close>. The flag \<open>guard\<close> is the value of
  \<open>insert_or_test_version_number()\<close> of \<open>jupytext.header\<close>; \<open>metadata\<close> is
  \<open>notebook.metadata\<close>. \<open>Inr ()\<close> is the plain return.
\<close>

definition check_file_version ::
  "script_extensions \<Rightarrow> bool \<Rightarrow> dict \<Rightarrow> string \<Rightarrow> string \<Rightarrow> error + unit" where
  "check_file_version se guard metadata source_path outputs_path =
     (if \<not> guard then Inr ()
      else let ext = snd (splitext source_path) in
      if endswith ext ''.ipynb'' then Inr ()
      else
     (case py_get (jupytext_block metadata) ''text_representation'' (JDict []) of
        Inl e \<Rightarrow> Inl e
      | Inr text_repr \<Rightarrow>
     (case py_get text_repr ''format_version'' JNone of
        Inl e \<Rightarrow> Inl e
      | Inr version0 \<Rightarrow>
     (case format_name_for_ext se metadata ext JNone True of
        Inl e \<Rightarrow> Inl e
      | Inr name \<Rightarrow>
     (case get_format_implementation se ext name of
        Inl e \<Rightarrow> Inl e
      | Inr None \<Rightarrow> Inl AttributeError_operand
      | Inr (Some fmt) \<Rightarrow>
          let current = current_version_number fmt;
              version = (if metadata \<noteq> [] \<and> \<not> truthy version0 then JStr current else version0);
              lo = (case min_readable_version_number fmt of
                      None \<Rightarrow> current
                    | Some m \<Rightarrow> if m \<noteq> [] then m else current)
          in if version = JStr current then Inr ()
             else (case version_between lo version current of
                     Inl e \<Rightarrow> Inl e
                   | Inr True \<Rightarrow> Inr ()
                   | Inr False \<Rightarrow>
                       if source_path = outputs_path then Inr ()
                       else Inl (ValueError_unsafe_merge (basename source_path) version current
                                   (basename outputs_path))))))))"

text \<open>
  The reading of the spec, for comparison with \<open>str_le\<close>: a version string denotes
  \<open>major.minor\<close>, and versions are compared numerically per component.
\<close>

definition digit_value :: "char \<Rightarrow> nat" where
  "digit_value c = of_char c - 48"

definition is_digit :: "char \<Rightarrow> bool" where
  "is_digit c = (48 \<le> (of_char c :: nat) \<and> (of_char c :: nat) \<le> 57)"

definition decimal :: "string \<Rightarrow> nat" where
  "decimal s = foldl (\<lambda>n c. 10 * n + digit_value c) 0 s"

definition is_number :: "string \<Rightarrow> bool" where
  "is_number s = (s \<noteq> [] \<and> list_all is_digit s)"

definition is_major_minor :: "string \<Rightarrow> bool" where
  "is_major_minor v =
     (case split_at CHR ''.'' v of [a, b] \<Rightarrow> is_number a \<and> is_number b | _ \<Rightarrow> False)"

definition major_minor :: "string \<Rightarrow> nat \<times> nat" where
  "major_minor v = (decimal (takeWhile (\<lambda>c. c \<noteq> CHR ''.'') v),
                    decimal (drop 1 (dropWhile (\<lambda>c. c \<noteq> CHR ''.'') v)))"

definition numeric_version_le :: "string \<Rightarrow> string \<Rightarrow> bool" where
  "numeric_version_le a b =
     (fst (major_minor a) < fst (major_minor b) \<or>
      (fst (major_minor a) = fst (major_minor b) \<and> snd (major_minor a) \<le> snd (major_minor b)))"

section \<open>Guessing the format from the text\<close>

text \<open>
  Iterating over a value (\<open>for x in v\<close>, \<open>set(v)\<close>): the elements of a list, the
  characters of a string, the keys of a dictionary; nothing else is iterable.
\<close>

fun py_iter :: "json \<Rightarrow> error + json list" where
  "py_iter (JList xs) = Inr xs"
| "py_iter (JStr s) = Inr (map (\<lambda>c. JStr [c]) s)"
| "py_iter (JDict d) = Inr (map (\<lambda>p. JStr (fst p)) d)"
| "py_iter _ = Inl TypeError_operand"

















section \<open>Rearranging the metadata\<close>

text \<open>
  \<open>rearrange_jupytext_metadata\<close> changes the metadata dictionary in place. The model
  returns the dictionary the call leaves when it returns, and the exception when it
  raises (the dictionary a raising call leaves half changed is not modelled).
\<close>

text \<open>\<open>if old in d: d[new] = d.pop(old)\<close>.\<close>

definition rename_key :: "dict \<Rightarrow> string \<Rightarrow> string \<Rightarrow> dict" where
  "rename_key d old new =
     (case map_of d old of None \<Rightarrow> d | Some v \<Rightarrow> dict_set (dict_del d old) new v)"

text \<open>\<open>x[k] = v\<close> for a string \<open>k\<close>: only a dictionary takes it.\<close>

fun py_setitem :: "json \<Rightarrow> string \<Rightarrow> json \<Rightarrow> error + json" where
  "py_setitem (JDict d) k v = Inr (JDict (dict_set d k v))"
| "py_setitem _ k v = Inl TypeError_operand"

text \<open>\<open>x[k]\<close> for a string \<open>k\<close>.\<close>

fun py_getitem :: "json \<Rightarrow> string \<Rightarrow> error + json" where
  "py_getitem (JDict d) k = (case map_of d k of None \<Rightarrow> Inl (KeyError_key k) | Some v \<Rightarrow> Inr v)"
| "py_getitem _ k = Inl TypeError_operand"

text \<open>
  \<open>x.pop(k, default)\<close>: the value and what is left of \<open>x\<close>. A list has a \<open>pop\<close> of one
  argument only; the other values have none.
\<close>

fun py_pop :: "json \<Rightarrow> string \<Rightarrow> json \<Rightarrow> error + json \<times> json" where
  "py_pop (JDict d) k dflt =
     Inr (case map_of d k of None \<Rightarrow> dflt | Some v \<Rightarrow> v, JDict (dict_del d k))"
| "py_pop (JList xs) k dflt = Inl TypeError_operand"
| "py_pop _ k dflt = Inl AttributeError_operand"

text \<open>\<open>t in s\<close> on strings: \<open>t\<close> occurs in \<open>s\<close>.\<close>

fun occurs_in :: "string \<Rightarrow> string \<Rightarrow> bool" where
  "occurs_in t [] = (t = [])"
| "occurs_in t (x # xs) = (startswith (x # xs) t \<or> occurs_in t xs)"

text \<open>\<open>k in x\<close> for a string \<open>k\<close>.\<close>

fun py_contains :: "string \<Rightarrow> json \<Rightarrow> error + bool" where
  "py_contains k (JDict d) = Inr (has_key d k)"
| "py_contains k (JList xs) = Inr (JStr k \<in> set xs)"
| "py_contains k (JStr s) = Inr (occurs_in k s)"
| "py_contains k _ = Inl TypeError_operand"

text \<open>
  \<open>if key in metadata: jupytext_metadata[entry] = wrap(metadata.pop(key))\<close>, on the
  pair of the metadata and the block taken out of it.
\<close>

definition fold_key ::
  "string \<Rightarrow> string \<Rightarrow> (json \<Rightarrow> json) \<Rightarrow> dict \<times> json \<Rightarrow> error + dict \<times> json" where
  "fold_key key entry wrap mj =
     (case map_of (fst mj) key of
        None \<Rightarrow> Inr mj
      | Some v \<Rightarrow>
          (case py_setitem (snd mj) entry (wrap v) of
             Inl e \<Rightarrow> Inl e
           | Inr j \<Rightarrow> Inr (dict_del (fst mj) key, j)))"

text \<open>\<open>if name in filters: jupytext_metadata[entry] = filters[name]\<close>.\<close>

definition fold_filter :: "json \<Rightarrow> string \<Rightarrow> string \<Rightarrow> json \<Rightarrow> error + json" where
  "fold_filter filters name entry j =
     (case py_contains name filters of
        Inl e \<Rightarrow> Inl e
      | Inr False \<Rightarrow> Inr j
      | Inr True \<Rightarrow>
          (case py_getitem filters name of
             Inl e \<Rightarrow> Inl e
           | Inr v \<Rightarrow> py_setitem j entry v))"

text \<open>\<open>'-' + e\<close> for every \<open>e\<close> of a list of values: each must be a string.\<close>

fun minus_each :: "json list \<Rightarrow> error + json list" where
  "minus_each [] = Inr []"
| "minus_each (JStr e # es) =
     (case minus_each es of Inl err \<Rightarrow> Inl err | Inr rs \<Rightarrow> Inr (JStr (''-'' @ e) # rs))"
| "minus_each (_ # es) = Inl TypeError_operand"

text \<open>\<open>','.join(entries)\<close>: each entry must be a string.\<close>

fun strings_of :: "json list \<Rightarrow> error + string list" where
  "strings_of [] = Inr []"
| "strings_of (JStr e # es) =
     (case strings_of es of Inl err \<Rightarrow> Inl err | Inr rs \<Rightarrow> Inr (e # rs))"
| "strings_of (_ # es) = Inl TypeError_operand"

text \<open>
  The compact form of a filter given as a dictionary with \<open>additional\<close> and \<open>excluded\<close>.
  \<open>entries.append\<close> and \<open>entries.extend\<close> are looked up before their argument is
  evaluated, and only a list has them.
\<close>

definition flatten_filter :: "dict \<Rightarrow> error + string" where
  "flatten_filter f =
     (let additional = (case map_of f ''additional'' of None \<Rightarrow> JList [] | Some v \<Rightarrow> v);
          entries = (if additional = JStr ''all'' then JList [JStr ''all''] else additional);
          excluded = (case map_of f ''excluded'' of None \<Rightarrow> JList [] | Some v \<Rightarrow> v)
      in case entries of
           JList es \<Rightarrow>
             (case (if excluded = JStr ''all'' then Inr [JStr ''-all'']
                    else (case py_iter excluded of Inl e \<Rightarrow> Inl e | Inr xs \<Rightarrow> minus_each xs)) of
                Inl e \<Rightarrow> Inl e
              | Inr negated \<Rightarrow>
                  (case strings_of (es @ negated) of
                     Inl e \<Rightarrow> Inl e
                   | Inr ws \<Rightarrow> Inr (join '','' ws)))
         | _ \<Rightarrow> Inl AttributeError_operand)"

text \<open>One round of the loop over the two filter levels, on the block.\<close>

definition flatten_level :: "string \<Rightarrow> dict \<Rightarrow> error + dict" where
  "flatten_level filter_level block =
     (case map_of block filter_level of
        Some (JDict f) \<Rightarrow>
          (case flatten_filter f of
             Inl e \<Rightarrow> Inl e
           | Inr s \<Rightarrow> Inr (dict_set block filter_level (JStr s)))
      | _ \<Rightarrow> Inr block)"

text \<open>The part of the function from \<open>filters = jupytext_metadata.pop(...)\<close> on.\<close>

definition rearrange_block :: "dict \<Rightarrow> json \<Rightarrow> error + dict" where
  "rearrange_block metadata j0 =
     (case py_pop j0 ''metadata_filter'' (JDict []) of
        Inl e \<Rightarrow> Inl e
      | Inr (filters, j1) \<Rightarrow>
     (case fold_filter filters ''notebook'' ''notebook_metadata_filter'' j1 of
        Inl e \<Rightarrow> Inl e
      | Inr j2 \<Rightarrow>
     (case fold_filter filters ''cells'' ''cell_metadata_filter'' j2 of
        Inl e \<Rightarrow> Inl e
      | Inr (JDict b0) \<Rightarrow>
          (case flatten_level ''notebook_metadata_filter'' b0 of
             Inl e \<Rightarrow> Inl e
           | Inr b1 \<Rightarrow>
          (case flatten_level ''cell_metadata_filter'' b1 of
             Inl e \<Rightarrow> Inl e
           | Inr b2 \<Rightarrow>
               if b2 \<noteq> [] then Inr (dict_set metadata ''jupytext'' (JDict b2)) else Inr metadata))
      | Inr _ \<Rightarrow> Inl AttributeError_operand)))"

definition rearrange_jupytext_metadata :: "dict \<Rightarrow> error + dict" where
  "rearrange_jupytext_metadata metadata0 =
     (let metadata1 = rename_key (rename_key metadata0 ''nbrmd_formats'' ''jupytext_formats'')
                        ''nbrmd_format_version'' ''jupytext_format_version'';
          jupytext_metadata = jupytext_block metadata1;
          metadata = dict_del metadata1 ''jupytext''
      in
     (case fold_key ''jupytext_formats'' ''formats'' (\<lambda>v. v) (metadata, jupytext_metadata) of
        Inl e \<Rightarrow> Inl e
      | Inr mj1 \<Rightarrow>
     (case fold_key ''jupytext_format_version'' ''text_representation''
             (\<lambda>v. JDict [(''format_version'', v)]) mj1 of
        Inl e \<Rightarrow> Inl e
      | Inr mj2 \<Rightarrow>
     (case fold_key ''main_language'' ''main_language'' (\<lambda>v. v) mj2 of
        Inl e \<Rightarrow> Inl e
      | Inr mj3 \<Rightarrow>
     (case fold_key ''encoding'' ''encoding'' (\<lambda>v. v) mj3 of
        Inl e \<Rightarrow> Inl e
      | Inr mj4 \<Rightarrow>
     (case fold_key ''executable'' ''executable'' (\<lambda>v. v) mj4 of
        Inl e \<Rightarrow> Inl e
      | Inr mj5 \<Rightarrow> rearrange_block (fst mj5) (snd mj5)))))))"

section \<open>Long form of the formats\<close>

text \<open>\<open>long_form_one_format\<close>: a value that is not a string is returned as it is.\<close>

definition long_form_one_format :: "json \<Rightarrow> json" where
  "long_form_one_format jupytext_format =
     (case jupytext_format of
        JStr s \<Rightarrow>
          (let (ext0, d0) =
                 (if CHR '':'' \<in> set s
                  then (fst (split_first CHR '':'' s),
                        [(''format_name'', JStr (snd (split_first CHR '':'' s)))])
                  else (s, []));
               (ext1, d1) =
                 (if rfind CHR ''.'' ext0 > 0
                  then (snd (splitext ext0), dict_set d0 ''suffix'' (JStr (fst (splitext ext0))))
                  else (ext0, d0));
               ext = (if \<not> startswith ext1 ''.'' then ''.'' @ ext1 else ext1)
           in JDict (dict_set d1 ''extension'' (JStr ext)))
      | _ \<Rightarrow> jupytext_format)"

definition VALID_FORMAT_OPTIONS :: "string list" where
  "VALID_FORMAT_OPTIONS = [''extension'', ''format_name'', ''suffix'', ''prefix'', ''comment_magics'',
     ''split_at_heading'', ''notebook_metadata_filter'', ''cell_metadata_filter'']"

definition BINARY_FORMAT_OPTIONS :: "string list" where
  "BINARY_FORMAT_OPTIONS = [''comment_magics'', ''split_at_heading'']"

fun is_bool :: "json \<Rightarrow> bool" where
  "is_bool (JBool b) = True"
| "is_bool _ = False"

fun is_str :: "json \<Rightarrow> bool" where
  "is_str (JStr s) = True"
| "is_str _ = False"

text \<open>The loop of \<open>validate_one_format\<close> over the keys, in the dictionary's order.\<close>

fun validate_options :: "dict \<Rightarrow> dict \<Rightarrow> error + unit" where
  "validate_options d [] = Inr ()"
| "validate_options d ((key, _) # rest) =
     (if key \<notin> set VALID_FORMAT_OPTIONS then Inl (JupytextFormatError (UnknownFormatOption key))
      else (case map_of d key of
              None \<Rightarrow> Inl (KeyError_key key)
            | Some v \<Rightarrow>
                if key \<in> set BINARY_FORMAT_OPTIONS
                then (if \<not> is_bool v then Inl (JupytextFormatError (ShouldBeBool key v))
                      else validate_options d rest)
                else if \<not> is_str v then Inl (JupytextFormatError (ShouldBeString key v))
                else validate_options d rest))"

definition validate_one_format :: "script_extensions \<Rightarrow> json \<Rightarrow> error + unit" where
  "validate_one_format se jupytext_format =
     (case jupytext_format of
        JDict d \<Rightarrow>
          (case validate_options d d of
             Inl e \<Rightarrow> Inl e
           | Inr _ \<Rightarrow>
               (case map_of d ''extension'' of
                  None \<Rightarrow> Inl (JupytextFormatError MissingFormatExtension)
                | Some ext \<Rightarrow>
                    if ext \<notin> set (map JStr (legitimate_extensions se))
                    then Inl (JupytextFormatError (NotANotebookExtension ext))
                    else Inr ()))
      | _ \<Rightarrow> Inl (JupytextFormatError NotADictionary))"

text \<open>The loop \<open>for fmt in jupytext_formats: validate_one_format(fmt)\<close>.\<close>

fun validate_each :: "script_extensions \<Rightarrow> json list \<Rightarrow> error + unit" where
  "validate_each se [] = Inr ()"
| "validate_each se (fmt # fmts) =
     (case validate_one_format se fmt of Inl e \<Rightarrow> Inl e | Inr _ \<Rightarrow> validate_each se fmts)"

definition long_form_multiple_formats :: "script_extensions \<Rightarrow> json \<Rightarrow> error + json list" where
  "long_form_multiple_formats se jupytext_formats =
     (if \<not> truthy jupytext_formats then Inr []
      else (case (case jupytext_formats of
                    JStr s \<Rightarrow> Inr (map JStr (filter (\<lambda>fmt. fmt \<noteq> []) (split_at CHR '','' s)))
                  | _ \<Rightarrow> py_iter jupytext_formats) of
              Inl e \<Rightarrow> Inl e
            | Inr fmts \<Rightarrow>
                let long = map long_form_one_format fmts in
                (case validate_each se long of Inl e \<Rightarrow> Inl e | Inr _ \<Rightarrow> Inr long)))"

section \<open>Notions used in the properties\<close>

text \<open>
  The shape of metadata that \<open>rearrange_jupytext_metadata\<close> leaves: no legacy key and no
  \<open>jupytext\<close> key outside the block, and a block without the nested \<open>metadata_filter\<close>
  whose two filters are not dictionaries.
\<close>

definition legacy_keys :: "string list" where
  "legacy_keys = [''jupytext'', ''nbrmd_formats'', ''nbrmd_format_version'', ''jupytext_formats'',
     ''jupytext_format_version'', ''main_language'', ''encoding'', ''executable'']"

definition clean :: "dict \<Rightarrow> bool" where
  "clean m = list_all (\<lambda>k. map_of m k = None) legacy_keys"

fun is_dict :: "json \<Rightarrow> bool" where
  "is_dict (JDict d) = True"
| "is_dict _ = False"

definition no_dict_at :: "dict \<Rightarrow> string \<Rightarrow> bool" where
  "no_dict_at b k = (case map_of b k of None \<Rightarrow> True | Some v \<Rightarrow> \<not> is_dict v)"

definition flat_block :: "dict \<Rightarrow> bool" where
  "flat_block b = (map_of b ''metadata_filter'' = None \<and>
     no_dict_at b ''notebook_metadata_filter'' \<and> no_dict_at b ''cell_metadata_filter'')"

definition with_block :: "dict \<Rightarrow> dict \<Rightarrow> dict" where
  "with_block m b = (if b \<noteq> [] then dict_set m ''jupytext'' (JDict b) else m)"





text \<open>
  An extension as the keys of \<open>_SCRIPT_EXTENSIONS\<close> are: a dot followed by a name that is
  not empty and holds no dot, comma or colon.
\<close>

definition plain_extension :: "string \<Rightarrow> bool" where
  "plain_extension e =
     (case e of
        [] \<Rightarrow> False
      | c # r \<Rightarrow> c = CHR ''.'' \<and> r \<noteq> [] \<and> CHR ''.'' \<notin> set r \<and> CHR '','' \<notin> set r \<and> CHR '':'' \<notin> set r)"

text \<open>What the compact form keeps of a format name: the names of the markup formats are left out.\<close>

definition rendered_name :: "string option \<Rightarrow> string option" where
  "rendered_name name = (if name = Some ''markdown'' \<or> name = Some ''rmarkdown'' then None else name)"

section \<open>Properties of the registry lookup\<close>

lemma split_at_not_Nil: "split_at c s \<noteq> []"
  by (induction s) (auto split: list.splits)

lemma split_at_no_sep: "c \<notin> set ys \<Longrightarrow> split_at c ys = [ys]"
  by (induction ys) auto

lemma length_split_at: "length (split_at c s) = Suc (length (filter (\<lambda>x. x = c) s))"
  by (induction s) (auto split: list.splits)

lemma split_at_sep_not_single: "split_at c (xs @ c # ys) \<noteq> [w]"
proof
  assume "split_at c (xs @ c # ys) = [w]"
  then have "length (split_at c (xs @ c # ys)) = 1" by simp
  then show False by (simp add: length_split_at)
qed

lemma last_split_at_append: "last (split_at c (xs @ c # ys)) = last (split_at c ys)"
  by (induction xs) (auto simp: split_at_not_Nil split_at_sep_not_single split: list.splits)

lemma endswith_append: "endswith s t \<Longrightarrow> \<exists>p. s = p @ t"
  unfolding endswith_def by (metis append_take_drop_id)

lemma short_extension_ipynb:
  assumes "endswith path ''.ipynb''"
  shows "short_extension path = ''.ipynb''"
proof -
  from assms obtain p where p: "path = p @ CHR ''.'' # ''ipynb''"
    using endswith_append by fastforce
  have "last (split_at CHR ''.'' path) = last (split_at CHR ''.'' ''ipynb'')"
    unfolding p by (rule last_split_at_append)
  then show ?thesis by (simp add: short_extension_def)
qed

text \<open>
  C10: for every path that ends in \<open>.ipynb\<close> and every format name,
  \<open>get_format_implementation\<close> returns \<open>None\<close>: no descriptor, and neither of its two
  errors.
\<close>

theorem ipynb_has_no_implementation:
  "endswith path ''.ipynb'' \<Longrightarrow> get_format_implementation se path name = Inr None"
  by (simp add: get_format_implementation_def short_extension_ipynb endswith_def)

theorem ipynb_has_no_implementation_witness:
  "endswith ''notebooks/demo.lgt.ipynb'' ''.ipynb'' \<and>
   get_format_implementation script_extensions_py ''notebooks/demo.lgt.ipynb'' (JStr ''light'') = Inr None"
  using ipynb_has_no_implementation
    [of "''notebooks/demo.lgt.ipynb''" script_extensions_py "JStr ''light''"]
  by (simp add: endswith_def)

lemma formats_for_extension_no_name:
  "\<not> truthy name \<Longrightarrow>
   formats_for_extension fs ext name acc =
     (case find (\<lambda>fmt. extension fmt = ext) fs of Some fmt \<Rightarrow> Returned fmt | None \<Rightarrow> Collected acc)"
  by (induction fs arbitrary: acc) auto

lemma formats_for_extension_Collected:
  "formats_for_extension fs ext name acc = Collected names \<Longrightarrow>
   names = acc @ map format_name (filter (\<lambda>fmt. extension fmt = ext) fs) \<and>
   (\<forall>fmt \<in> set fs. extension fmt = ext \<longrightarrow> truthy name \<and> JStr (format_name fmt) \<noteq> name)"
proof (induction fs arbitrary: acc)
  case Nil
  then show ?case by simp
next
  case (Cons a fs)
  show ?case
  proof (cases "extension a = ext")
    case False
    with Cons.prems have "formats_for_extension fs ext name acc = Collected names" by simp
    from Cons.IH [OF this] False show ?thesis by simp
  next
    case True
    with Cons.prems have t: "truthy name" and ne: "JStr (format_name a) \<noteq> name"
      and c: "formats_for_extension fs ext name (acc @ [format_name a]) = Collected names"
      by (auto split: if_splits)
    from Cons.IH [OF c] True t ne show ?thesis by simp
  qed
qed

lemmas registry_defs = JUPYTEXT_FORMATS_def script_extensions_py_def markdown_format_def
  rmarkdown_format_def spin_format_def light_format_def percent_format_def hydrogen_format_def
  sphinx_format_def

text \<open>
  C1 (as the code has it): when no format name is supplied (\<open>None\<close> or the empty
  string), \<open>get_format_implementation\<close> returns the first descriptor registered for the
  extension, or the unknown-extension error when there is none; it never raises the error
  that lists the candidates. That error is raised only for a non-empty format name that no
  descriptor of the extension carries, and then it lists the format names of every
  descriptor of the extension.
\<close>

theorem get_format_implementation_names:
  "(\<not> truthy name \<and> \<not> endswith (short_extension ext) ''.ipynb'' \<longrightarrow>
      get_format_implementation se ext name =
        (case find (\<lambda>fmt. extension fmt = short_extension ext) (JUPYTEXT_FORMATS se) of
           Some fmt \<Rightarrow> Inr (Some fmt)
         | None \<Rightarrow> Inl (TypeError_no_format (short_extension ext)))) \<and>
   (get_format_implementation se ext name = Inl (TypeError_not_associated n e names) \<longrightarrow>
      truthy name \<and> n = name \<and> e = short_extension ext \<and> names \<noteq> [] \<and>
      names = map format_name (filter (\<lambda>fmt. extension fmt = e) (JUPYTEXT_FORMATS se)) \<and>
      name \<notin> set (map JStr names))"
proof (intro conjI impI)
  assume "\<not> truthy name \<and> \<not> endswith (short_extension ext) ''.ipynb''"
  then show "get_format_implementation se ext name =
        (case find (\<lambda>fmt. extension fmt = short_extension ext) (JUPYTEXT_FORMATS se) of
           Some fmt \<Rightarrow> Inr (Some fmt)
         | None \<Rightarrow> Inl (TypeError_no_format (short_extension ext)))"
    by (simp add: get_format_implementation_def formats_for_extension_no_name split: option.splits)
next
  assume a: "get_format_implementation se ext name = Inl (TypeError_not_associated n e names)"
  then obtain c: "formats_for_extension (JUPYTEXT_FORMATS se) (short_extension ext) name [] = Collected names"
    and ne: "names \<noteq> []" and n: "n = name" and e: "e = short_extension ext"
    by (auto simp: get_format_implementation_def Let_def split: if_splits lookup.splits)
  from formats_for_extension_Collected [OF c]
  have names: "names = map format_name (filter (\<lambda>fmt. extension fmt = e) (JUPYTEXT_FORMATS se))"
    and all: "\<forall>fmt \<in> set (JUPYTEXT_FORMATS se). extension fmt = e \<longrightarrow> truthy name \<and> JStr (format_name fmt) \<noteq> name"
    using e by auto
  from ne names obtain fmt where "fmt \<in> set (JUPYTEXT_FORMATS se)" "extension fmt = e"
    by (auto simp: filter_empty_conv)
  with all have t: "truthy name" by blast
  have notin: "name \<notin> set (map JStr names)"
    using all names by auto
  show "truthy name" by (rule t)
  show "n = name" by (rule n)
  show "e = short_extension ext" by (rule e)
  show "names \<noteq> []" by (rule ne)
  show "names = map format_name (filter (\<lambda>fmt. extension fmt = e) (JUPYTEXT_FORMATS se))" by (rule names)
  show "name \<notin> set (map JStr names)" by (rule notin)
qed

lemma short_extension_py: "short_extension ''.py'' = ''.py''"
  by (simp add: short_extension_def)

theorem get_format_implementation_names_witness:
  "\<not> truthy JNone \<and> \<not> endswith (short_extension ''.py'') ''.ipynb'' \<and>
   get_format_implementation script_extensions_py ''.py'' JNone = Inr (Some (light_format (''.py'', ''#'')))"
proof -
  have h: "\<not> truthy JNone \<and> \<not> endswith (short_extension ''.py'') ''.ipynb''"
    by (simp add: short_extension_py endswith_def)
  from get_format_implementation_names [of JNone "''.py''" script_extensions_py] h
  have "get_format_implementation script_extensions_py ''.py'' JNone =
        (case find (\<lambda>fmt. extension fmt = short_extension ''.py'') (JUPYTEXT_FORMATS script_extensions_py) of
           Some fmt \<Rightarrow> Inr (Some fmt)
         | None \<Rightarrow> Inl (TypeError_no_format (short_extension ''.py'')))"
    by blast
  then show ?thesis using h
    by (simp add: short_extension_py registry_defs)
qed

text \<open>
  The extension \<open>.py\<close> has the four formats light, percent, hydrogen and sphinx (the
  lookup of an unregistered name lists them), and the lookup without a format name returns
  the light descriptor, not an error.
\<close>

theorem py_without_name_counterexample:
  "get_format_implementation script_extensions_py ''.py'' (JStr ''rst'') =
     Inl (TypeError_not_associated (JStr ''rst'') ''.py'' [''light'', ''percent'', ''hydrogen'', ''sphinx'']) \<and>
   get_format_implementation script_extensions_py ''.py'' JNone =
     Inr (Some (light_format (''.py'', ''#'')))"
  by (simp add: get_format_implementation_def short_extension_py endswith_def registry_defs)

section \<open>Properties of the formats list\<close>

lemma update_loop_found:
  "update_loop formats ext name True updated = updated @ filter (\<lambda>p. fst p \<noteq> ext) formats"
  by (induction formats arbitrary: updated) auto

lemma update_loop_other:
  "ext \<notin> fst ` set pre \<Longrightarrow>
   update_loop (pre @ rest) ext name found updated = update_loop rest ext name found (updated @ pre)"
  by (induction pre arbitrary: updated) auto

text \<open>
  C5 (as the code has it): \<open>update_formats\<close> replaces the first entry whose extension is
  \<open>ext\<close> by \<open>(ext, name)\<close>, keeps the entries of the other extensions in their order and
  drops every later entry of \<open>ext\<close>. When no entry has the extension \<open>ext\<close>, the list is
  returned as it is: nothing is appended.
\<close>

theorem update_formats_first_entry:
  "(ext \<notin> fst ` set formats \<longrightarrow> update_formats formats ext name = formats) \<and>
   (formats = pre @ (ext, old) # post \<and> ext \<notin> fst ` set pre \<longrightarrow>
      update_formats formats ext name = pre @ (ext, name) # filter (\<lambda>p. fst p \<noteq> ext) post)"
proof (intro conjI impI)
  assume "ext \<notin> fst ` set formats"
  from update_loop_other [OF this, of "[]" name False "[]"]
  show "update_formats formats ext name = formats"
    by (simp add: update_formats_def)
next
  assume a: "formats = pre @ (ext, old) # post \<and> ext \<notin> fst ` set pre"
  then have "update_formats formats ext name = update_loop ((ext, old) # post) ext name False pre"
    using update_loop_other [where ext = ext and pre = pre and rest = "(ext, old) # post"
        and found = False and updated = "[]"]
    by (simp add: update_formats_def)
  then show "update_formats formats ext name = pre @ (ext, name) # filter (\<lambda>p. fst p \<noteq> ext) post"
    by (simp add: update_loop_found)
qed

theorem update_formats_first_entry_witness:
  "update_formats [(''.ipynb'', None), (''.py'', Some ''light''), (''.md'', None), (''.py'', Some ''sphinx'')]
     ''.py'' (Some ''percent'') =
   [(''.ipynb'', None), (''.py'', Some ''percent''), (''.md'', None)] \<and>
   update_formats [(''.ipynb'', None), (''.md'', None)] ''.py'' (Some ''percent'') =
   [(''.ipynb'', None), (''.md'', None)]"
proof -
  have "update_formats ([(''.ipynb'', None)] @ (''.py'', Some ''light'') # [(''.md'', None), (''.py'', Some ''sphinx'')])
     ''.py'' (Some ''percent'') =
     [(''.ipynb'', None)] @ (''.py'', Some ''percent'') #
       filter (\<lambda>p. fst p \<noteq> ''.py'') [(''.md'', None), (''.py'', Some ''sphinx'')]"
    using update_formats_first_entry
      [of "''.py''" "[(''.ipynb'', None)] @ (''.py'', Some ''light'') # [(''.md'', None), (''.py'', Some ''sphinx'')]"
          "Some ''percent''" "[(''.ipynb'', None)]" "Some ''light''" "[(''.md'', None), (''.py'', Some ''sphinx'')]"]
    by simp
  moreover have "update_formats [(''.ipynb'', None), (''.md'', None)] ''.py'' (Some ''percent'') =
     [(''.ipynb'', None), (''.md'', None)]"
    using update_formats_first_entry
      [of "''.py''" "[(''.ipynb'', None), (''.md'', None)]" "Some ''percent''"]
    by simp
  ultimately show ?thesis by simp
qed

text \<open>
  A list without an entry for \<open>.py\<close> comes back unchanged: \<open>(.py, percent)\<close> is not
  appended at its end.
\<close>

theorem update_formats_append_counterexample:
  "update_formats [(''.ipynb'', None)] ''.py'' (Some ''percent'') = [(''.ipynb'', None)] \<and>
   update_formats [(''.ipynb'', None)] ''.py'' (Some ''percent'') \<noteq>
     [(''.ipynb'', None), (''.py'', Some ''percent'')]"
  by (simp add: update_formats_def)

section \<open>Properties of the format resolution\<close>

text \<open>
  C7: when the text representation block of the metadata records the queried extension
  together with a format name \<open>D1\<close> (a non-empty string), \<open>format_name_for_ext\<close> returns
  \<open>D1\<close>, whatever the formats list of the metadata, the default formats list and the flag
  \<open>explicit_default\<close> are.
\<close>

theorem text_representation_wins:
  assumes "map_of metadata ''jupytext'' = Some (JDict block)"
    and "map_of block ''text_representation'' = Some (JDict text_repr)"
    and "map_of text_repr ''extension'' = Some (JStr ext)"
    and "map_of text_repr ''format_name'' = Some (JStr D1)"
    and "D1 \<noteq> []"
  shows "format_name_for_ext se metadata ext cm_default_formats explicit_default = Inr (JStr D1)"
proof -
  from assms(3) have "text_repr \<noteq> []" by auto
  then have "text_repr_format_name (JDict text_repr) ext = Inr (Some (JStr D1))"
    using assms(3-5) by (simp add: text_repr_format_name_def)
  then show ?thesis
    using assms(1,2) by (simp add: format_name_for_ext_def jupytext_block_def)
qed

theorem text_representation_wins_witness:
  "format_name_for_ext script_extensions_py
     [(''jupytext'', JDict [(''formats'', JStr ''ipynb,py:percent''),
        (''text_representation'', JDict [(''extension'', JStr ''.py''), (''format_name'', JStr ''light'')])])]
     ''.py'' (JStr ''py:sphinx'') True = Inr (JStr ''light'')"
  by (rule text_representation_wins
        [where block = "[(''formats'', JStr ''ipynb,py:percent''),
            (''text_representation'', JDict [(''extension'', JStr ''.py''), (''format_name'', JStr ''light'')])]"
          and text_repr = "[(''extension'', JStr ''.py''), (''format_name'', JStr ''light'')]"])
     simp_all

section \<open>Properties of the validation\<close>

lemma validate_options_error:
  "\<forall>p \<in> set ks. map_of d (fst p) \<noteq> None \<Longrightarrow> validate_options d ks = Inl e \<Longrightarrow>
   \<exists>fe. e = JupytextFormatError fe"
  by (induction ks) (auto split: option.splits if_splits)

lemma validate_options_bad:
  assumes "\<forall>p \<in> set ks. map_of d (fst p) \<noteq> None"
    and "(key, x) \<in> set ks"
    and "map_of d key = Some v"
    and "key \<notin> set VALID_FORMAT_OPTIONS \<or> (key \<in> set BINARY_FORMAT_OPTIONS \<and> \<not> is_bool v) \<or>
         (key \<notin> set BINARY_FORMAT_OPTIONS \<and> \<not> is_str v)"
  shows "\<exists>fe. validate_options d ks = Inl (JupytextFormatError fe)"
  using assms(1,2)
proof (induction ks)
  case Nil
  then show ?case by simp
next
  case (Cons p ks)
  obtain k y where p: "p = (k, y)" by (cases p)
  show ?case
  proof (cases "k = key")
    case True
    with assms(3,4) p show ?thesis by auto
  next
    case False
    with Cons.prems p have "(key, x) \<in> set ks" by auto
    with Cons have "\<exists>fe. validate_options d ks = Inl (JupytextFormatError fe)" by simp
    with p Cons.prems show ?thesis by (auto split: option.splits)
  qed
qed

lemma keys_present: "\<forall>p \<in> set d. map_of d (fst p) \<noteq> None"
  by (metis weak_map_of_SomeI option.distinct(1) prod.collapse)

lemma validate_one_format_error:
  "validate_one_format se j = Inl e \<Longrightarrow> \<exists>fe. e = JupytextFormatError fe"
proof (cases j)
  case (JDict d)
  assume "validate_one_format se j = Inl e"
  with validate_options_error [OF keys_present [of d]]
  show ?thesis unfolding JDict
    by (auto simp: validate_one_format_def split: option.splits sum.splits if_splits)
qed (auto simp: validate_one_format_def)

lemma validate_one_format_bad:
  assumes "map_of d key = Some v"
    and "key \<notin> set VALID_FORMAT_OPTIONS \<or> (key \<in> set BINARY_FORMAT_OPTIONS \<and> \<not> is_bool v) \<or>
         (key \<notin> set BINARY_FORMAT_OPTIONS \<and> \<not> is_str v)"
  shows "\<exists>fe. validate_one_format se (JDict d) = Inl (JupytextFormatError fe)"
proof -
  from assms(1) have "(key, v) \<in> set d" by (rule map_of_SomeD)
  from validate_options_bad [OF keys_present this assms(1) assms(2)]
  show ?thesis by (auto simp: validate_one_format_def)
qed

lemma validate_each_bad:
  assumes "j \<in> set js" and "\<exists>fe. validate_one_format se j = Inl (JupytextFormatError fe)"
  shows "\<exists>fe. validate_each se js = Inl (JupytextFormatError fe)"
  using assms(1)
proof (induction js)
  case Nil
  then show ?case by simp
next
  case (Cons a js)
  show ?case
  proof (cases "validate_one_format se a")
    case (Inl e)
    with validate_one_format_error [of se a] show ?thesis by auto
  next
    case (Inr u)
    with assms(2) have "a \<noteq> j" by auto
    with Cons.prems have "j \<in> set js" by simp
    with Cons.IH Inr show ?thesis by simp
  qed
qed

text \<open>
  C9: when the list handed to \<open>long_form_multiple_formats\<close> holds a record with a key
  outside the allowed options, or with a value that is not a boolean under one of the two
  boolean options, or with a value that is not a string under any other option, the call
  raises \<open>JupytextFormatError\<close>: it returns no list, whatever the other entries are.
\<close>

theorem invalid_record_fails:
  assumes "JDict d \<in> set fmts"
    and "map_of d key = Some v"
    and "key \<notin> set VALID_FORMAT_OPTIONS \<or> (key \<in> set BINARY_FORMAT_OPTIONS \<and> \<not> is_bool v) \<or>
         (key \<notin> set BINARY_FORMAT_OPTIONS \<and> \<not> is_str v)"
  shows "\<exists>fe. long_form_multiple_formats se (JList fmts) = Inl (JupytextFormatError fe)"
proof -
  have "long_form_one_format (JDict d) = JDict d"
    by (simp add: long_form_one_format_def)
  with assms(1) have "JDict d \<in> set (map long_form_one_format fmts)"
    by (metis image_eqI list.set_map)
  from validate_each_bad [OF this validate_one_format_bad [OF assms(2,3)]]
  obtain fe where "validate_each se (map long_form_one_format fmts) = Inl (JupytextFormatError fe)"
    by blast
  moreover from assms(1) have "fmts \<noteq> []" by auto
  ultimately show ?thesis
    by (simp add: long_form_multiple_formats_def)
qed

theorem invalid_record_fails_witness:
  "\<exists>fe. long_form_multiple_formats script_extensions_py
     (JList [JStr ''ipynb'', JDict [(''extension'', JStr ''.py''), (''comment_magics'', JStr ''yes'')]]) =
     Inl (JupytextFormatError fe)"
  by (rule invalid_record_fails
        [where d = "[(''extension'', JStr ''.py''), (''comment_magics'', JStr ''yes'')]"
           and key = "''comment_magics''" and v = "JStr ''yes''"])
     (simp_all add: BINARY_FORMAT_OPTIONS_def VALID_FORMAT_OPTIONS_def)

section \<open>Properties of the metadata rearrangement\<close>

lemma map_of_dict_set: "map_of (dict_set d k v) k' = (if k' = k then Some v else map_of d k')"
  by (induction d) auto

lemma map_of_dict_del: "map_of (dict_del d k) k' = (if k' = k then None else map_of d k')"
  unfolding dict_del_def by (induction d) auto

lemma dict_del_absent: "map_of d k = None \<Longrightarrow> dict_del d k = d"
  unfolding dict_del_def by (induction d) (auto split: if_splits)

lemma dict_set_absent: "map_of d k = None \<Longrightarrow> dict_set d k v = d @ [(k, v)]"
  by (induction d) (auto split: if_splits)

lemma dict_del_dict_set: "map_of d k = None \<Longrightarrow> dict_del (dict_set d k v) k = d"
  by (simp add: dict_set_absent dict_del_def) (simp add: dict_del_absent [unfolded dict_del_def])

lemma rename_key_absent: "map_of d old = None \<Longrightarrow> rename_key d old new = d"
  by (simp add: rename_key_def)

lemma map_of_rename_key:
  "old \<noteq> new \<Longrightarrow> map_of (rename_key d old new) old = None"
  by (simp add: rename_key_def map_of_dict_set map_of_dict_del split: option.splits)

lemma map_of_rename_key_other:
  "k \<noteq> new \<Longrightarrow> map_of d k = None \<Longrightarrow> map_of (rename_key d old new) k = None"
  by (simp add: rename_key_def map_of_dict_set map_of_dict_del split: option.splits)

lemma fold_key_absent: "map_of (fst mj) key = None \<Longrightarrow> fold_key key entry wrap mj = Inr mj"
  by (simp add: fold_key_def)

lemma fold_key_key:
  "fold_key key entry wrap mj = Inr mj' \<Longrightarrow> map_of (fst mj') key = None"
  by (auto simp: fold_key_def map_of_dict_del split: option.splits sum.splits)

lemma fold_key_other:
  "fold_key key entry wrap mj = Inr mj' \<Longrightarrow> map_of (fst mj) k = None \<Longrightarrow> map_of (fst mj') k = None"
  by (auto simp: fold_key_def map_of_dict_del split: option.splits sum.splits)

lemma py_pop_dict:
  "py_pop j k dflt = Inr (v, j') \<Longrightarrow> \<exists>d. j = JDict d \<and> j' = JDict (dict_del d k)"
  by (cases j) auto

lemma fold_filter_dict:
  assumes "fold_filter filters name entry (JDict b) = Inr j" and "entry \<noteq> ''metadata_filter''"
    and "map_of b ''metadata_filter'' = None"
  shows "\<exists>b'. j = JDict b' \<and> map_of b' ''metadata_filter'' = None"
  using assms
  by (auto simp: fold_filter_def map_of_dict_set split: sum.splits bool.splits)

lemma flatten_level_result:
  assumes "flatten_level level b = Inr b'"
  shows "no_dict_at b' level \<and> (\<forall>k. k \<noteq> level \<longrightarrow> map_of b' k = map_of b k)"
proof (cases "map_of b level")
  case None
  with assms show ?thesis by (simp add: flatten_level_def no_dict_at_def)
next
  case (Some v)
  show ?thesis
  proof (cases v)
    case (JDict f)
    with Some assms obtain s where "b' = dict_set b level (JStr s)"
      by (auto simp: flatten_level_def split: sum.splits)
    then show ?thesis by (simp add: no_dict_at_def map_of_dict_set)
  qed (use Some assms in \<open>auto simp: flatten_level_def no_dict_at_def\<close>)
qed

lemma flatten_level_flat: "no_dict_at b level \<Longrightarrow> flatten_level level b = Inr b"
  by (cases "map_of b level"; cases "the (map_of b level)")
     (auto simp: flatten_level_def no_dict_at_def)

lemma rearrange_block_shape:
  assumes "rearrange_block m j0 = Inr M'"
  shows "\<exists>b. flat_block b \<and> M' = with_block m b"
proof -
  from assms obtain filters j1 where pop: "py_pop j0 ''metadata_filter'' (JDict []) = Inr (filters, j1)"
    by (auto simp: rearrange_block_def split: sum.splits)
  then obtain d where j1: "j1 = JDict (dict_del d ''metadata_filter'')"
    using py_pop_dict by blast
  from assms pop obtain j2 where f1:
    "fold_filter filters ''notebook'' ''notebook_metadata_filter'' j1 = Inr j2"
    by (auto simp: rearrange_block_def split: sum.splits)
  from fold_filter_dict [OF f1 [unfolded j1]]
  obtain b2' where j2: "j2 = JDict b2'" and mf2: "map_of b2' ''metadata_filter'' = None"
    by (auto simp: map_of_dict_del)
  from assms pop f1 obtain j3 where f2:
    "fold_filter filters ''cells'' ''cell_metadata_filter'' j2 = Inr j3"
    by (auto simp: rearrange_block_def split: sum.splits)
  from fold_filter_dict [OF f2 [unfolded j2] _ mf2]
  obtain b0 where j3: "j3 = JDict b0" and mf0: "map_of b0 ''metadata_filter'' = None"
    by auto
  from assms pop f1 f2 j3 obtain b1 where l1: "flatten_level ''notebook_metadata_filter'' b0 = Inr b1"
    by (auto simp: rearrange_block_def split: sum.splits)
  from assms pop f1 f2 j3 l1 obtain b2 where l2: "flatten_level ''cell_metadata_filter'' b1 = Inr b2"
    and M': "M' = with_block m b2"
    by (auto simp: rearrange_block_def with_block_def split: sum.splits if_splits)
  from flatten_level_result [OF l1] flatten_level_result [OF l2] mf0
  have "flat_block b2"
    by (simp add: flat_block_def no_dict_at_def)
  with M' show ?thesis by blast
qed

lemma rearrange_block_fixed:
  assumes "flat_block b" and "map_of m ''jupytext'' = None"
  shows "rearrange_block m (JDict b) = Inr (with_block m b)"
proof -
  from assms(1) have mf: "dict_del b ''metadata_filter'' = b"
    by (simp add: flat_block_def dict_del_absent)
  from assms(1) have l1: "flatten_level ''notebook_metadata_filter'' b = Inr b"
    and l2: "flatten_level ''cell_metadata_filter'' b = Inr b"
    by (simp_all add: flat_block_def flatten_level_flat)
  from assms(1) have "map_of b ''metadata_filter'' = None" by (simp add: flat_block_def)
  then show ?thesis
    by (simp add: rearrange_block_def mf fold_filter_def has_key_def l1 l2 with_block_def)
qed

lemma clean_with_block:
  assumes "clean m"
  shows "map_of (with_block m b) ''nbrmd_formats'' = None"
    and "map_of (with_block m b) ''nbrmd_format_version'' = None"
    and "map_of (with_block m b) ''jupytext_formats'' = None"
    and "map_of (with_block m b) ''jupytext_format_version'' = None"
    and "map_of (with_block m b) ''main_language'' = None"
    and "map_of (with_block m b) ''encoding'' = None"
    and "map_of (with_block m b) ''executable'' = None"
    and "jupytext_block (with_block m b) = JDict b"
    and "dict_del (with_block m b) ''jupytext'' = m"
  using assms
  by (simp_all add: clean_def legacy_keys_def with_block_def map_of_dict_set jupytext_block_def
        dict_del_dict_set dict_del_absent)

lemma rearrange_fixed:
  assumes "clean m" and "flat_block b"
  shows "rearrange_jupytext_metadata (with_block m b) = Inr (with_block m b)"
proof -
  from assms(1) have j: "map_of m ''jupytext'' = None"
    and k: "map_of m ''jupytext_formats'' = None" "map_of m ''jupytext_format_version'' = None"
      "map_of m ''main_language'' = None" "map_of m ''encoding'' = None" "map_of m ''executable'' = None"
    by (simp_all add: clean_def legacy_keys_def)
  show ?thesis
    by (simp add: rearrange_jupytext_metadata_def clean_with_block [OF assms(1)] rename_key_absent
          fold_key_absent k rearrange_block_fixed [OF assms(2) j])
qed

lemma rearrange_shape:
  assumes "rearrange_jupytext_metadata M = Inr M'"
  shows "\<exists>m b. clean m \<and> flat_block b \<and> M' = with_block m b"
proof -
  define m1 where "m1 = rename_key (rename_key M ''nbrmd_formats'' ''jupytext_formats'')
                        ''nbrmd_format_version'' ''jupytext_format_version''"
  define m where "m = dict_del m1 ''jupytext''"
  from assms obtain mj1 mj2 mj3 mj4 mj5 where
    f1: "fold_key ''jupytext_formats'' ''formats'' (\<lambda>v. v) (m, jupytext_block m1) = Inr mj1" and
    f2: "fold_key ''jupytext_format_version'' ''text_representation''
           (\<lambda>v. JDict [(''format_version'', v)]) mj1 = Inr mj2" and
    f3: "fold_key ''main_language'' ''main_language'' (\<lambda>v. v) mj2 = Inr mj3" and
    f4: "fold_key ''encoding'' ''encoding'' (\<lambda>v. v) mj3 = Inr mj4" and
    f5: "fold_key ''executable'' ''executable'' (\<lambda>v. v) mj4 = Inr mj5" and
    rb: "rearrange_block (fst mj5) (snd mj5) = Inr M'"
    unfolding rearrange_jupytext_metadata_def Let_def m1_def [symmetric] m_def [symmetric]
    by (auto split: sum.splits)
  have a1: "map_of m1 ''nbrmd_formats'' = None"
    unfolding m1_def by (simp add: map_of_rename_key_other map_of_rename_key)
  have a2: "map_of m1 ''nbrmd_format_version'' = None"
    unfolding m1_def by (simp add: map_of_rename_key)
  have m0: "map_of m ''jupytext'' = None" "map_of m ''nbrmd_formats'' = None"
    "map_of m ''nbrmd_format_version'' = None"
    unfolding m_def using a1 a2 by (simp_all add: map_of_dict_del)
  note o = fold_key_other
  note kk = fold_key_key
  have "clean (fst mj5)"
    unfolding clean_def legacy_keys_def
    using o [OF f5 o [OF f4 o [OF f3 o [OF f2 o [OF f1]]]], of "''jupytext''"]
      o [OF f5 o [OF f4 o [OF f3 o [OF f2 o [OF f1]]]], of "''nbrmd_formats''"]
      o [OF f5 o [OF f4 o [OF f3 o [OF f2 o [OF f1]]]], of "''nbrmd_format_version''"]
      o [OF f5 o [OF f4 o [OF f3 o [OF f2 kk [OF f1]]]]]
      o [OF f5 o [OF f4 o [OF f3 kk [OF f2]]]]
      o [OF f5 o [OF f4 kk [OF f3]]]
      o [OF f5 kk [OF f4]]
      kk [OF f5] m0
    by simp
  with rearrange_block_shape [OF rb] show ?thesis by blast
qed

text \<open>
  C8: rearranging the metadata twice gives what rearranging it once gives. A call that
  raises lets the exception through, so the second call is applied to the result of a call
  that returns; the equality is that of association lists, which implies the equality of
  the dictionaries.
\<close>

theorem rearrange_idempotent:
  "(case rearrange_jupytext_metadata M of
      Inl e \<Rightarrow> Inl e
    | Inr M' \<Rightarrow> rearrange_jupytext_metadata M') = rearrange_jupytext_metadata M"
proof (cases "rearrange_jupytext_metadata M")
  case (Inl e)
  then show ?thesis by simp
next
  case (Inr M')
  from rearrange_shape [OF this] obtain m b where "clean m" "flat_block b" "M' = with_block m b"
    by blast
  with rearrange_fixed have "rearrange_jupytext_metadata M' = Inr M'" by simp
  with Inr show ?thesis by simp
qed

lemma rearrange_example:
  "rearrange_jupytext_metadata
     [(''nbrmd_formats'', JStr ''ipynb,py''),
      (''jupytext'', JDict [(''metadata_filter'', JDict [(''notebook'',
         JDict [(''additional'', JList [JStr ''a'', JStr ''b'']), (''excluded'', JList [JStr ''c''])])])]),
      (''kernelspec'', JDict [(''name'', JStr ''python3'')])] =
   Inr [(''kernelspec'', JDict [(''name'', JStr ''python3'')]),
        (''jupytext'', JDict [(''formats'', JStr ''ipynb,py''), (''notebook_metadata_filter'', JStr ''a,b,-c'')])]"
  by (simp add: rearrange_jupytext_metadata_def rename_key_def dict_del_def jupytext_block_def
        fold_key_def rearrange_block_def fold_filter_def has_key_def flatten_level_def
        flatten_filter_def)

theorem rearrange_idempotent_witness:
  "rearrange_jupytext_metadata
     [(''nbrmd_formats'', JStr ''ipynb,py''),
      (''jupytext'', JDict [(''metadata_filter'', JDict [(''notebook'',
         JDict [(''additional'', JList [JStr ''a'', JStr ''b'']), (''excluded'', JList [JStr ''c''])])])]),
      (''kernelspec'', JDict [(''name'', JStr ''python3'')])] =
   Inr [(''kernelspec'', JDict [(''name'', JStr ''python3'')]),
        (''jupytext'', JDict [(''formats'', JStr ''ipynb,py''), (''notebook_metadata_filter'', JStr ''a,b,-c'')])] \<and>
   rearrange_jupytext_metadata
     [(''kernelspec'', JDict [(''name'', JStr ''python3'')]),
      (''jupytext'', JDict [(''formats'', JStr ''ipynb,py''), (''notebook_metadata_filter'', JStr ''a,b,-c'')])] =
   Inr [(''kernelspec'', JDict [(''name'', JStr ''python3'')]),
        (''jupytext'', JDict [(''formats'', JStr ''ipynb,py''), (''notebook_metadata_filter'', JStr ''a,b,-c'')])]"
  using rearrange_idempotent
    [of "[(''nbrmd_formats'', JStr ''ipynb,py''),
      (''jupytext'', JDict [(''metadata_filter'', JDict [(''notebook'',
         JDict [(''additional'', JList [JStr ''a'', JStr ''b'']), (''excluded'', JList [JStr ''c''])])])]),
      (''kernelspec'', JDict [(''name'', JStr ''python3'')])]"]
  by (simp add: rearrange_example)

section \<open>Properties of the format guess\<close>











section \<open>Properties of the version guard\<close>

lemmas version_guard_defs = check_file_version_def splitext_def rfind_def jupytext_block_def
  format_name_for_ext_def text_repr_format_name_def format_name_from_formats_def
  auto_ext_from_metadata_def parse_formats_def default_format_name_def
  get_format_implementation_def short_extension_def endswith_def version_between_def basename_def
  registry_defs




text \<open>
  C2: the guard orders version strings as Python orders strings. For the light format of
  \<open>.py\<close> (current version 1.3, minimum readable version 1.1) it lets the recorded version
  1.10 through, which is above 1.3 when the components are read as numbers.
\<close>

theorem version_1_10_accepted:
  "check_file_version script_extensions_py True
     [(''jupytext'', JDict [(''text_representation'',
         JDict [(''extension'', JStr ''.py''), (''format_name'', JStr ''light''),
                (''format_version'', JStr ''1.10'')])])]
     ''notebook.py'' ''notebook.ipynb'' = Inr () \<and>
   is_major_minor ''1.10'' \<and> \<not> numeric_version_le ''1.10'' ''1.3''"
  by (simp add: version_guard_defs is_major_minor_def is_number_def is_digit_def
        numeric_version_le_def major_minor_def decimal_def digit_value_def)

text \<open>The five versions of the spec's example, on the same descriptor.\<close>

lemma version_examples:
  "check_file_version script_extensions_py True
     [(''jupytext'', JDict [(''text_representation'',
         JDict [(''extension'', JStr ''.py''), (''format_name'', JStr ''light''),
                (''format_version'', JStr v)])])]
     ''notebook.py'' ''notebook.ipynb'' =
   (if v = [] \<or> v = ''1.3'' \<or> (str_le ''1.1'' v \<and> str_le v ''1.3'') then Inr ()
    else Inl (ValueError_unsafe_merge ''notebook.py'' (JStr v) ''1.3'' ''notebook.ipynb''))"
  by (simp add: version_guard_defs Let_def split: bool.splits)

lemma version_examples_five:
  "map (\<lambda>v. check_file_version script_extensions_py True
          [(''jupytext'', JDict [(''text_representation'',
              JDict [(''extension'', JStr ''.py''), (''format_name'', JStr ''light''),
                     (''format_version'', JStr v)])])]
          ''notebook.py'' ''notebook.ipynb'')
     [''1.0'', ''1.1'', ''1.2'', ''1.3'', ''1.4''] =
   [Inl (ValueError_unsafe_merge ''notebook.py'' (JStr ''1.0'') ''1.3'' ''notebook.ipynb''),
    Inr (), Inr (), Inr (),
    Inl (ValueError_unsafe_merge ''notebook.py'' (JStr ''1.4'') ''1.3'' ''notebook.ipynb'')]"
  by (simp add: version_examples)

section \<open>Properties of the compact form\<close>

lemma split_at_append_sep: "c \<notin> set w \<Longrightarrow> split_at c (w @ c # rest) = w # split_at c rest"
  by (induction w) auto

lemma split_at_join:
  "ws \<noteq> [] \<Longrightarrow> \<forall>w \<in> set ws. c \<notin> set w \<Longrightarrow> split_at c (join [c] ws) = ws"
proof (induction ws)
  case Nil
  then show ?case by simp
next
  case (Cons w ws)
  show ?case
  proof (cases ws)
    case Nil
    with Cons.prems show ?thesis by (simp add: split_at_no_sep)
  next
    case (Cons v vs)
    with Cons.prems Cons.IH have "split_at c (join [c] ws) = ws" by simp
    with Cons Cons.prems show ?thesis by (simp add: split_at_append_sep)
  qed
qed

lemma join_not_Nil: "ws \<noteq> [] \<Longrightarrow> \<forall>w \<in> set ws. w \<noteq> [] \<Longrightarrow> join sep ws \<noteq> []"
  by (cases ws; cases "tl ws") auto

lemma set_fromkeys: "set (fromkeys xs) = set xs"
  by (induction xs rule: fromkeys.induct) auto

lemma set_legitimate_extensions:
  "set (legitimate_extensions se) =
     {''.ipynb'', ''.md'', ''.Rmd'', ''.r'', ''.R'', ''.py'', ''.auto''} \<union> fst ` set se"
  by (auto simp: legitimate_extensions_def NOTEBOOK_EXTENSIONS_def set_fromkeys JUPYTEXT_FORMATS_def
        markdown_format_def rmarkdown_format_def spin_format_def light_format_def
        percent_format_def hydrogen_format_def sphinx_format_def image_iff)

lemma legitimate_plain:
  assumes "\<forall>e \<in> fst ` set se. plain_extension e" and "e \<in> set (legitimate_extensions se)"
  shows "plain_extension e"
  using assms unfolding set_legitimate_extensions
  by (auto simp: plain_extension_def)

lemma registered_format_names:
  "fmt \<in> set (JUPYTEXT_FORMATS se) \<Longrightarrow>
   format_name fmt \<in> {''markdown'', ''rmarkdown'', ''spin'', ''light'', ''percent'', ''hydrogen'', ''sphinx''}"
  by (auto simp: JUPYTEXT_FORMATS_def markdown_format_def rmarkdown_format_def spin_format_def
        light_format_def percent_format_def hydrogen_format_def sphinx_format_def)

lemma one_format_as_string_plain:
  assumes "e = CHR ''.'' # r"
  shows "one_format_as_string e name =
     (case rendered_name name of
        None \<Rightarrow> r
      | Some n \<Rightarrow> if n \<noteq> [] then r @ '':'' @ n else r)"
  using assms
  by (auto simp: one_format_as_string_def startswith_def rendered_name_def split: option.splits)

lemma parse_rendered:
  assumes "plain_extension e" and "e \<in> set (legitimate_extensions se)"
    and "name \<noteq> Some []"
  shows "parse_one_format se (one_format_as_string e name) = Inr (e, rendered_name name)"
proof -
  from assms(1) obtain r where e: "e = CHR ''.'' # r" and r: "r \<noteq> []" "CHR ''.'' \<notin> set r"
    "CHR '':'' \<notin> set r"
    by (auto simp: plain_extension_def split: list.splits)
  from r have nodot: "\<not> startswith r ''.''"
    by (cases r) (auto simp: startswith_def)
  show ?thesis
  proof (cases "rendered_name name")
    case None
    with e have "one_format_as_string e name = r" by (simp add: one_format_as_string_plain)
    with r nodot assms(2) e None show ?thesis
      by (simp add: parse_one_format_def)
  next
    case (Some n)
    with assms(3) have n: "n \<noteq> []" by (auto simp: rendered_name_def split: if_splits)
    with Some have s: "one_format_as_string (CHR ''.'' # r) name = r @ CHR '':'' # n"
      by (simp add: one_format_as_string_plain [OF refl])
    from r have "\<forall>x \<in> set r. x \<noteq> CHR '':''" by auto
    then have "split_first CHR '':'' (r @ CHR '':'' # n) = (r, n)"
      by (simp add: split_first_def takeWhile_append2 dropWhile_append2)
    with nodot assms(2) Some show ?thesis
      unfolding e by (simp add: parse_one_format_def s)
  qed
qed

lemma rendered_no_comma:
  assumes "plain_extension e" and "\<forall>n. name = Some n \<longrightarrow> CHR '','' \<notin> set n"
  shows "CHR '','' \<notin> set (one_format_as_string e name) \<and> one_format_as_string e name \<noteq> []"
proof -
  from assms(1) obtain r where e: "e = CHR ''.'' # r" and r: "r \<noteq> []" "CHR '','' \<notin> set r"
    by (auto simp: plain_extension_def split: list.splits)
  with assms(2) show ?thesis
    by (auto simp: one_format_as_string_plain [OF refl] rendered_name_def split: option.splits if_splits)
qed

lemma parse_each_rendered:
  assumes "\<forall>p \<in> set L. plain_extension (fst p) \<and> fst p \<in> set (legitimate_extensions se) \<and>
             snd p \<noteq> Some []"
  shows "parse_each se (map (\<lambda>(ext, name). one_format_as_string ext name) L) =
         Inr (map (\<lambda>(ext, name). (ext, rendered_name name)) L)"
  using assms by (induction L) (auto simp: parse_rendered)

text \<open>
  C4 (as the code has it): parsing the compact form of a valid formats list gives the list
  back with the format name left out of every entry that names a markup format
  (\<open>markdown\<close>, \<open>rmarkdown\<close>); it gives the list itself back when no entry names one of
  the two. A list is valid when every extension is a legitimate one and every format name
  is absent or registered for its extension; the extensions of the table are plain.
\<close>

theorem parse_formats_of_string:
  assumes "\<forall>e \<in> fst ` set se. plain_extension e"
    and "\<forall>p \<in> set L. fst p \<in> set (legitimate_extensions se) \<and>
           (snd p = None \<or>
            (\<exists>fmt \<in> set (JUPYTEXT_FORMATS se). extension fmt = fst p \<and> snd p = Some (format_name fmt)))"
  shows "parse_formats se (JStr (formats_as_string L)) =
           Inr (map (\<lambda>(ext, name). (ext, rendered_name name)) L) \<and>
         ((\<forall>p \<in> set L. snd p \<noteq> Some ''markdown'' \<and> snd p \<noteq> Some ''rmarkdown'') \<longrightarrow>
            parse_formats se (JStr (formats_as_string L)) = Inr L)"
proof -
  let ?ws = "map (\<lambda>(ext, name). one_format_as_string ext name) L"
  have names: "snd p \<noteq> Some [] \<and> (\<forall>n. snd p = Some n \<longrightarrow> CHR '','' \<notin> set n)" if "p \<in> set L" for p
  proof (cases "snd p")
    case None
    then show ?thesis by simp
  next
    case (Some n)
    with assms(2) that obtain fmt where "fmt \<in> set (JUPYTEXT_FORMATS se)" "n = format_name fmt"
      by fastforce
    with registered_format_names [of fmt se] Some show ?thesis by auto
  qed
  have plain: "plain_extension (fst p)" if "p \<in> set L" for p
    using legitimate_plain [OF assms(1)] assms(2) that by blast
  have each: "parse_each se ?ws = Inr (map (\<lambda>(ext, name). (ext, rendered_name name)) L)"
    by (rule parse_each_rendered) (use names plain assms(2) in blast)
  have first: "parse_formats se (JStr (formats_as_string L)) =
           Inr (map (\<lambda>(ext, name). (ext, rendered_name name)) L)"
  proof (cases "L = []")
    case True
    then show ?thesis by (simp add: parse_formats_def formats_as_string_def)
  next
    case False
    have w: "\<forall>w \<in> set ?ws. CHR '','' \<notin> set w \<and> w \<noteq> []"
      using rendered_no_comma names plain by (auto simp: case_prod_beta)
    from False have ne: "?ws \<noteq> []" by simp
    from w have "split_at CHR '','' (join [CHR '',''] ?ws) = ?ws"
      by (intro split_at_join [OF ne]) blast
    moreover from w have "join [CHR '',''] ?ws \<noteq> []"
      by (intro join_not_Nil [OF ne]) blast
    ultimately show ?thesis
      using each by (simp add: parse_formats_def formats_as_string_def)
  qed
  moreover have "map (\<lambda>(ext, name). (ext, rendered_name name)) L = L"
    if "\<forall>p \<in> set L. snd p \<noteq> Some ''markdown'' \<and> snd p \<noteq> Some ''rmarkdown''"
    using that by (induction L) (auto simp: rendered_name_def)
  ultimately show ?thesis by simp
qed

theorem parse_formats_of_string_witness:
  "formats_as_string [(''.ipynb'', None), (''.md'', Some ''markdown''), (''.py'', Some ''percent'')] =
     ''ipynb,md,py:percent'' \<and>
   parse_formats script_extensions_py (JStr ''ipynb,md,py:percent'') =
     Inr [(''.ipynb'', None), (''.md'', None), (''.py'', Some ''percent'')] \<and>
   parse_formats script_extensions_py (JStr (formats_as_string [(''.ipynb'', None), (''.py'', Some ''percent'')])) =
     Inr [(''.ipynb'', None), (''.py'', Some ''percent'')]"
proof -
  have se: "\<forall>e \<in> fst ` set script_extensions_py. plain_extension e"
    by (simp add: script_extensions_py_def plain_extension_def)
  have r: "formats_as_string [(''.ipynb'', None), (''.md'', Some ''markdown''), (''.py'', Some ''percent'')] =
     ''ipynb,md,py:percent''"
    by (simp add: formats_as_string_def one_format_as_string_def startswith_def)
  have v1: "\<forall>p \<in> set [(''.ipynb'', None), (''.md'', Some ''markdown''), (''.py'', Some ''percent'')].
      fst p \<in> set (legitimate_extensions script_extensions_py) \<and>
      (snd p = None \<or>
       (\<exists>fmt \<in> set (JUPYTEXT_FORMATS script_extensions_py). extension fmt = fst p \<and> snd p = Some (format_name fmt)))"
    by (simp add: set_legitimate_extensions registry_defs)
  have v2: "\<forall>p \<in> set [(''.ipynb'', None), (''.py'', Some ''percent'')].
      fst p \<in> set (legitimate_extensions script_extensions_py) \<and>
      (snd p = None \<or>
       (\<exists>fmt \<in> set (JUPYTEXT_FORMATS script_extensions_py). extension fmt = fst p \<and> snd p = Some (format_name fmt)))"
    by (simp add: set_legitimate_extensions registry_defs)
  from parse_formats_of_string [OF se v1]
  have "parse_formats script_extensions_py (JStr ''ipynb,md,py:percent'') =
     Inr [(''.ipynb'', None), (''.md'', None), (''.py'', Some ''percent'')]"
    by (simp add: r rendered_name_def)
  moreover from parse_formats_of_string [OF se v2]
  have "parse_formats script_extensions_py (JStr (formats_as_string [(''.ipynb'', None), (''.py'', Some ''percent'')])) =
     Inr [(''.ipynb'', None), (''.py'', Some ''percent'')]"
    by (simp add: rendered_name_def)
  ultimately show ?thesis using r by simp
qed

text \<open>
  The entry \<open>(.md, markdown)\<close> is valid and is written \<open>md\<close>, which is parsed as
  \<open>(.md, None)\<close>.
\<close>

theorem markdown_round_trip_counterexample:
  "markdown_format \<in> set (JUPYTEXT_FORMATS script_extensions_py) \<and>
   extension markdown_format = ''.md'' \<and> format_name markdown_format = ''markdown'' \<and>
   formats_as_string [(''.md'', Some ''markdown'')] = ''md'' \<and>
   parse_formats script_extensions_py (JStr (formats_as_string [(''.md'', Some ''markdown'')])) =
     Inr [(''.md'', None)]"
  by (simp add: formats_as_string_def one_format_as_string_def startswith_def parse_formats_def
        parse_one_format_def legitimate_extensions_def NOTEBOOK_EXTENSIONS_def registry_defs)

end
